theory Spec2Isabelle
  imports Complex_Main "HOL-Library.AList"
begin

section \<open>Values, rows and exceptions\<close>

text \<open>
  A cell is one value of a result row, as a DB-API driver hands it to Python:
  \<^item> \<open>VNull\<close>: SQL NULL (Python \<open>None\<close>; inside a pandas frame also NaN and NaT, which
    pandas treats alike as missing);
  \<^item> \<open>VInt\<close>: a Python \<open>int\<close>;
  \<^item> \<open>VFloat\<close>, \<open>VPosInf\<close>, \<open>VNegInf\<close>: a finite or infinite Python \<open>float\<close>, a finite one by
    the rational number it denotes (rounding is not modelled);
  \<^item> \<open>VDec\<close>: a finite \<open>decimal.Decimal\<close>, by the rational number it denotes (the 28-digit
    context is not modelled);
  \<^item> \<open>VStr\<close>: a \<open>str\<close>;
  \<^item> \<open>VTime\<close>: a date or timestamp, as a count of time units.
  A row is the \<open>dict\<close> that \<open>execute_query\<close> builds: an association list in insertion
  order, with one entry per key.
\<close>

datatype cell =
    VNull
  | VInt int
  | VFloat rat
  | VPosInf
  | VNegInf
  | VDec rat
  | VStr string
  | VTime int

type_synonym row = "(string \<times> cell) list"

text \<open>
  Exceptions are values. \<open>str_exn\<close> is Python's \<open>str(e)\<close>: the message of the exception,
  and for a \<open>KeyError\<close> the \<open>repr\<close> of the missing key (the key in single quotes).
  \<open>DivisionByZero\<close> and \<open>InvalidOperation\<close> are the two signals of the \<open>decimal\<close> module
  for \<open>x / 0\<close> and \<open>0 / 0\<close>.
\<close>

datatype exn =
    Exception string
  | AttributeError string
  | IndexError string
  | KeyError string
  | ValueError string
  | TypeError string
  | DivisionByZero
  | InvalidOperation

fun str_exn :: "exn \<Rightarrow> string" where
  "str_exn (Exception m) = m"
| "str_exn (AttributeError m) = m"
| "str_exn (IndexError m) = m"
| "str_exn (KeyError k) = CHR 0x27 # k @ [CHR 0x27]"
| "str_exn (ValueError m) = m"
| "str_exn (TypeError m) = m"
| "str_exn DivisionByZero = ''[<class 'decimal.DivisionByZero'>]''"
| "str_exn InvalidOperation = ''[<class 'decimal.DivisionUndefined'>]''"

text \<open>
  A statement that may raise returns \<open>exn + 'a\<close>; \<open>then_do\<close> runs the next statement on
  the value, or passes the exception on.
\<close>

definition then_do :: "exn + 'a \<Rightarrow> ('a \<Rightarrow> exn + 'b) \<Rightarrow> exn + 'b" where
  "then_do m f = (case m of Inl e \<Rightarrow> Inl e | Inr x \<Rightarrow> f x)"

fun sequence :: "(exn + 'a) list \<Rightarrow> exn + 'a list" where
  "sequence [] = Inr []"
| "sequence (m # ms) =
     (case m of
        Inl e \<Rightarrow> Inl e
      | Inr x \<Rightarrow> (case sequence ms of Inl e \<Rightarrow> Inl e | Inr xs \<Rightarrow> Inr (x # xs)))"

subsection \<open>Python dicts and lists\<close>

text \<open>
  \<open>dict(pairs)\<close> inserts the pairs from left to right; storing under a key that is
  already present replaces the value and keeps the key's position
  (\<open>AList.update\<close>). \<open>d[k]\<close> raises \<open>KeyError\<close> on a missing key, \<open>xs[0]\<close> raises
  \<open>IndexError\<close> on an empty list.
\<close>

definition py_dict :: "('k \<times> 'v) list \<Rightarrow> ('k \<times> 'v) list" where
  "py_dict kvs = foldl (\<lambda>d (k, v). AList.update k v d) [] kvs"

definition dict_getitem :: "(string \<times> 'v) list \<Rightarrow> string \<Rightarrow> exn + 'v" where
  "dict_getitem d k = (case map_of d k of None \<Rightarrow> Inl (KeyError k) | Some v \<Rightarrow> Inr v)"

definition list_first :: "'a list \<Rightarrow> exn + 'a" where
  "list_first xs = (case xs of [] \<Rightarrow> Inl (IndexError ''list index out of range'') | x # _ \<Rightarrow> Inr x)"

text \<open>The decimal digits of a length, as an f-string prints them.\<close>

function str_nat :: "nat \<Rightarrow> string" where
  "str_nat n = (if n < 10 then [''0123456789'' ! n] else str_nat (n div 10) @ [''0123456789'' ! (n mod 10)])"
  by pat_completeness auto
termination
  by (relation "measure (\<lambda>n. n)") auto

declare str_nat.simps [simp del]

section \<open>db\_connectors/database.py\<close>

text \<open>
  The cursor of a driver is the external collaborator. For a query text it either
  raises (in \<open>execute\<close>, in reading \<open>description\<close> or in \<open>fetchall\<close>; \<open>Inl\<close> holds the
  \<open>str\<close> of that exception) or yields the column names of \<open>description\<close> and the fetched
  tuples. A connector holds its class and its cursor; \<open>DatabaseConnector.__init__\<close> leaves
  the cursor \<open>None\<close>, the four subclasses set it.
\<close>

type_synonym cursor = "string \<Rightarrow> string + (string list \<times> cell list list)"

datatype connector_class =
    DatabaseConnector
  | PostgresConnector
  | OracleConnector
  | TeradataConnector
  | SnowflakeConnector

record connector =
  cls :: connector_class
  cursor :: "cursor option"

definition execute_query :: "connector \<Rightarrow> string \<Rightarrow> exn + row list" where
  "execute_query self query =
     (case cursor self of
        None \<Rightarrow>
          Inl (Exception (''Error executing query: '' @
            CHR 0x27 # ''NoneType' object has no attribute 'execute'' @ [CHR 0x27]))
      | Some cur \<Rightarrow>
          (case cur query of
             Inl msg \<Rightarrow> Inl (Exception (''Error executing query: '' @ msg))
           | Inr (columns, fetched) \<Rightarrow>
               Inr (map (\<lambda>row. py_dict (zip columns row)) fetched)))"

text \<open>
  \<open>get_connector\<close>: the table of classes, the membership test, the constructor call.
  What a constructor does (reading the configuration, connecting through the driver)
  is the parameter \<open>drivers\<close>: for a class, the cursor of the new connection or the
  exception the constructor raises.
\<close>

definition connectors :: "(string \<times> connector_class) list" where
  "connectors =
     [(''postgres'', PostgresConnector),
      (''oracle'', OracleConnector),
      (''teradata'', TeradataConnector),
      (''snowflake'', SnowflakeConnector)]"

definition construct :: "(connector_class \<Rightarrow> exn + cursor) \<Rightarrow> connector_class \<Rightarrow> exn + connector" where
  "construct drivers c = then_do (drivers c) (\<lambda>cur. Inr \<lparr>cls = c, cursor = Some cur\<rparr>)"

definition get_connector :: "(connector_class \<Rightarrow> exn + cursor) \<Rightarrow> string \<Rightarrow> exn + connector" where
  "get_connector drivers db_type =
     (case map_of connectors db_type of
        None \<Rightarrow> Inl (ValueError (''Unsupported database type: '' @ db_type))
      | Some c \<Rightarrow> construct drivers c)"

section \<open>The pandas operations the validations use\<close>

text \<open>
  pandas is an external library. The operations the source calls are modelled by what
  they do on frames built from the rows of a cursor, where every column holds values of
  one kind (besides NULL) and the key columns hold the same kind in both frames:
  \<^item> \<open>pd.DataFrame(rows)\<close>: the columns are the keys of the dicts in first-seen order, a
    cell missing from a dict is NULL; an empty list gives a frame with no columns;
  \<^item> \<open>pd.merge(left, right, on=keys, suffixes=(s1, s2))\<close>: an inner join. A key that is
    not a column of both frames raises \<open>KeyError\<close>. The rows of the result are the pairs
    of a left and a right row with equal keys, in the order of the left frame; missing
    keys are equal to each other (pandas matches NULL keys, unlike SQL). The columns are
    those of the left frame, then the non-key columns of the right frame; a non-key
    column that both frames have gets the suffix of its side;
  \<^item> \<open>df[col]\<close> raises \<open>KeyError\<close> for a column the frame does not have;
  \<^item> arithmetic and comparison of columns work element by element; the first element
    that raises ends the operation with its exception, and a missing operand gives a
    missing result.
\<close>

record dataframe =
  columns :: "string list"
  records :: "row list"

definition first_seen :: "'a list \<Rightarrow> 'a list" where
  "first_seen xs = rev (remdups (rev xs))"

definition cell_of :: "row \<Rightarrow> string \<Rightarrow> cell" where
  "cell_of r c = (case map_of r c of None \<Rightarrow> VNull | Some v \<Rightarrow> v)"

definition DataFrame :: "row list \<Rightarrow> dataframe" where
  "DataFrame data =
     (let cols = first_seen (concat (map (map fst) data))
      in \<lparr>columns = cols, records = map (\<lambda>r. map (\<lambda>c. (c, cell_of r c)) cols) data\<rparr>)"

definition getitem :: "dataframe \<Rightarrow> string \<Rightarrow> exn + cell list" where
  "getitem df c =
     (if c \<in> set (columns df) then Inr (map (\<lambda>r. cell_of r c) (records df))
      else Inl (KeyError c))"

definition setitem :: "dataframe \<Rightarrow> string \<Rightarrow> cell list \<Rightarrow> dataframe" where
  "setitem df c s =
     \<lparr>columns = (if c \<in> set (columns df) then columns df else columns df @ [c]),
      records = map (\<lambda>(r, v). AList.update c v r) (zip (records df) s)\<rparr>"

definition select_rows :: "dataframe \<Rightarrow> bool list \<Rightarrow> dataframe" where
  "select_rows df keep = df\<lparr>records := map fst (filter snd (zip (records df) keep))\<rparr>"

definition len :: "dataframe \<Rightarrow> nat" where
  "len df = length (records df)"

definition to_dict_records :: "dataframe \<Rightarrow> row list" where
  "to_dict_records df = records df"

text \<open>
  Python's \<open>==\<close> and \<open>hash\<close> identify an \<open>int\<close>, a \<open>float\<close> and a \<open>Decimal\<close> of the same
  numeric value; \<open>canon\<close> picks one representative, so that two cells are equal for
  Python exactly when their representatives are the same.
\<close>

fun canon :: "cell \<Rightarrow> cell" where
  "canon (VInt i) = VDec (of_int i)"
| "canon (VFloat r) = VDec r"
| "canon c = c"

definition keys_match :: "string list \<Rightarrow> row \<Rightarrow> row \<Rightarrow> bool" where
  "keys_match on l r = list_all (\<lambda>k. canon (cell_of l k) = canon (cell_of r k)) on"

definition merge :: "dataframe \<Rightarrow> dataframe \<Rightarrow> string list \<Rightarrow> string \<times> string \<Rightarrow> exn + dataframe" where
  "merge left right on suffixes =
     (case find (\<lambda>k. \<not> (k \<in> set (columns right) \<and> k \<in> set (columns left))) on of
        Some k \<Rightarrow> Inl (KeyError k)
      | None \<Rightarrow>
          (let overlap = filter (\<lambda>c. \<not> (c \<in> set on) \<and> c \<in> set (columns right)) (columns left);
               lname = (\<lambda>c. if c \<in> set overlap then c @ fst suffixes else c);
               rname = (\<lambda>c. if c \<in> set overlap then c @ snd suffixes else c);
               rcols = filter (\<lambda>c. \<not> (c \<in> set on)) (columns right)
           in Inr \<lparr>columns = map lname (columns left) @ map rname rcols,
                   records =
                     concat (map (\<lambda>l.
                       map (\<lambda>r. map (\<lambda>c. (lname c, cell_of l c)) (columns left) @
                                 map (\<lambda>c. (rname c, cell_of r c)) rcols)
                         (filter (keys_match on l) (records right)))
                       (records left))\<rparr>))"

subsection \<open>Element-wise arithmetic\<close>

text \<open>
  Columns of \<open>int\<close> and \<open>float\<close> are numpy arrays: \<open>int - int\<close> is an \<open>int\<close>, every other
  operation is IEEE arithmetic, where a division by zero gives an infinity or NaN and
  never raises. Here \<open>f64\<close> is a float with its special values, on exact rationals; a NaN
  in a frame is the missing value \<open>VNull\<close>.
\<close>

datatype f64 = Fin rat | PInf | NInf | NaN

fun to_f64 :: "cell \<Rightarrow> f64" where
  "to_f64 (VInt i) = Fin (of_int i)"
| "to_f64 (VFloat r) = Fin r"
| "to_f64 VPosInf = PInf"
| "to_f64 VNegInf = NInf"
| "to_f64 _ = NaN"

fun of_f64 :: "f64 \<Rightarrow> cell" where
  "of_f64 (Fin r) = VFloat r"
| "of_f64 PInf = VPosInf"
| "of_f64 NInf = VNegInf"
| "of_f64 NaN = VNull"

fun f64_sub :: "f64 \<Rightarrow> f64 \<Rightarrow> f64" where
  "f64_sub (Fin a) (Fin b) = Fin (a - b)"
| "f64_sub (Fin a) PInf = NInf"
| "f64_sub (Fin a) NInf = PInf"
| "f64_sub PInf (Fin b) = PInf"
| "f64_sub PInf NInf = PInf"
| "f64_sub NInf (Fin b) = NInf"
| "f64_sub NInf PInf = NInf"
| "f64_sub _ _ = NaN"

fun f64_div :: "f64 \<Rightarrow> f64 \<Rightarrow> f64" where
  "f64_div (Fin a) (Fin b) =
     (if b = 0 then (if a = 0 then NaN else if 0 < a then PInf else NInf) else Fin (a / b))"
| "f64_div (Fin a) PInf = Fin 0"
| "f64_div (Fin a) NInf = Fin 0"
| "f64_div PInf (Fin b) = (if b < 0 then NInf else PInf)"
| "f64_div NInf (Fin b) = (if b < 0 then PInf else NInf)"
| "f64_div _ _ = NaN"

fun floaty :: "cell \<Rightarrow> bool" where
  "floaty (VInt _) = True"
| "floaty (VFloat _) = True"
| "floaty VPosInf = True"
| "floaty VNegInf = True"
| "floaty _ = False"

text \<open>
  A column with a \<open>Decimal\<close> in it is an array of Python objects: \<open>Decimal\<close> combines
  with \<open>Decimal\<close> and \<open>int\<close>, dividing by zero raises the signal of the \<open>decimal\<close> module,
  and every other pair of operands raises \<open>TypeError\<close>.
\<close>

definition unsupported :: "string \<Rightarrow> exn" where
  "unsupported opr = TypeError (''unsupported operand type(s) for '' @ opr)"

definition dec_div :: "rat \<Rightarrow> rat \<Rightarrow> exn + cell" where
  "dec_div x y =
     (if y = 0 then Inl (if x = 0 then InvalidOperation else DivisionByZero)
      else Inr (VDec (x / y)))"

fun cell_sub :: "cell \<Rightarrow> cell \<Rightarrow> exn + cell" where
  "cell_sub VNull _ = Inr VNull"
| "cell_sub _ VNull = Inr VNull"
| "cell_sub (VInt x) (VInt y) = Inr (VInt (x - y))"
| "cell_sub (VDec x) (VDec y) = Inr (VDec (x - y))"
| "cell_sub (VDec x) (VInt y) = Inr (VDec (x - of_int y))"
| "cell_sub (VInt x) (VDec y) = Inr (VDec (of_int x - y))"
| "cell_sub a b =
     (if floaty a \<and> floaty b then Inr (of_f64 (f64_sub (to_f64 a) (to_f64 b)))
      else Inl (unsupported ''-''))"

fun cell_div :: "cell \<Rightarrow> cell \<Rightarrow> exn + cell" where
  "cell_div VNull _ = Inr VNull"
| "cell_div _ VNull = Inr VNull"
| "cell_div (VDec x) (VDec y) = dec_div x y"
| "cell_div (VDec x) (VInt y) = dec_div x (of_int y)"
| "cell_div (VInt x) (VDec y) = dec_div (of_int x) y"
| "cell_div a b =
     (if floaty a \<and> floaty b then Inr (of_f64 (f64_div (to_f64 a) (to_f64 b)))
      else Inl (unsupported ''/''))"

fun cell_abs :: "cell \<Rightarrow> exn + cell" where
  "cell_abs VNull = Inr VNull"
| "cell_abs (VInt x) = Inr (VInt \<bar>x\<bar>)"
| "cell_abs (VFloat r) = Inr (VFloat \<bar>r\<bar>)"
| "cell_abs VPosInf = Inr VPosInf"
| "cell_abs VNegInf = Inr VPosInf"
| "cell_abs (VDec x) = Inr (VDec \<bar>x\<bar>)"
| "cell_abs _ = Inl (TypeError ''bad operand type for abs()'')"

fun cell_mul :: "cell \<Rightarrow> int \<Rightarrow> exn + cell" where
  "cell_mul VNull n = Inr VNull"
| "cell_mul (VInt x) n = Inr (VInt (x * n))"
| "cell_mul (VFloat r) n = Inr (VFloat (r * of_int n))"
| "cell_mul VPosInf n = Inr (if 0 < n then VPosInf else if n < 0 then VNegInf else VNull)"
| "cell_mul VNegInf n = Inr (if 0 < n then VNegInf else if n < 0 then VPosInf else VNull)"
| "cell_mul (VDec x) n = Inr (VDec (x * of_int n))"
| "cell_mul (VStr s) n = Inr (VStr (concat (replicate (nat n) s)))"
| "cell_mul (VTime t) n = Inl (unsupported ''*'')"

fun cell_gt :: "cell \<Rightarrow> int \<Rightarrow> exn + bool" where
  "cell_gt VNull n = Inr False"
| "cell_gt (VInt x) n = Inr (n < x)"
| "cell_gt (VFloat r) n = Inr (of_int n < r)"
| "cell_gt VPosInf n = Inr True"
| "cell_gt VNegInf n = Inr False"
| "cell_gt (VDec x) n = Inr (of_int n < x)"
| "cell_gt _ n = Inl (TypeError ''> not supported between instances'')"

text \<open>\<open>!=\<close> of two columns never raises; a missing operand differs from everything.\<close>

definition cell_ne :: "cell \<Rightarrow> cell \<Rightarrow> bool" where
  "cell_ne a b = (\<not> (a \<noteq> VNull \<and> b \<noteq> VNull \<and> canon a = canon b))"

definition series_sub :: "cell list \<Rightarrow> cell list \<Rightarrow> exn + cell list" where
  "series_sub xs ys = sequence (map (\<lambda>(x, y). cell_sub x y) (zip xs ys))"

definition series_div :: "cell list \<Rightarrow> cell list \<Rightarrow> exn + cell list" where
  "series_div xs ys = sequence (map (\<lambda>(x, y). cell_div x y) (zip xs ys))"

definition series_abs :: "cell list \<Rightarrow> exn + cell list" where
  "series_abs xs = sequence (map cell_abs xs)"

definition series_mul :: "cell list \<Rightarrow> int \<Rightarrow> exn + cell list" where
  "series_mul xs n = sequence (map (\<lambda>x. cell_mul x n) xs)"

definition series_gt :: "cell list \<Rightarrow> int \<Rightarrow> exn + bool list" where
  "series_gt xs n = sequence (map (\<lambda>x. cell_gt x n) xs)"

definition series_ne :: "cell list \<Rightarrow> cell list \<Rightarrow> bool list" where
  "series_ne xs ys = map (\<lambda>(x, y). cell_ne x y) (zip xs ys)"

section \<open>business\_validations.py\<close>

text \<open>
  The validator holds the four connectors that \<open>__init__\<close> gets from \<open>get_connector\<close>; a
  constructor that raises ends \<open>__init__\<close> with its exception.
\<close>

record BusinessValidator =
  postgres :: connector
  oracle' :: connector
  teradata :: connector
  snowflake :: connector

definition BusinessValidator_init :: "(connector_class \<Rightarrow> exn + cursor) \<Rightarrow> exn + BusinessValidator" where
  "BusinessValidator_init drivers =
     then_do (get_connector drivers ''postgres'') (\<lambda>pg.
     then_do (get_connector drivers ''oracle'') (\<lambda>ora.
     then_do (get_connector drivers ''teradata'') (\<lambda>td.
     then_do (get_connector drivers ''snowflake'') (\<lambda>sf.
       Inr \<lparr>postgres = pg, oracle' = ora, teradata = td, snowflake = sf\<rparr>))))"

text \<open>
  The result of a check is a \<open>dict\<close> from names to Python objects: a text, a cell of a
  row, or the list of discrepancy records.
\<close>

datatype pyobj = Str string | Cell cell | Records "row list"

type_synonym result = "(string \<times> pyobj) list"

fun canon_obj :: "pyobj \<Rightarrow> pyobj" where
  "canon_obj (Cell c) = Cell (canon c)"
| "canon_obj x = x"

text \<open>\<open>set(xs)\<close>, by one representative of each class of equal elements.\<close>

definition py_set :: "pyobj list \<Rightarrow> pyobj list" where
  "py_set xs = remdups (map canon_obj xs)"

definition error_result :: "string \<Rightarrow> exn \<Rightarrow> result" where
  "error_result prefix e =
     [(''validation_status'', Str ''ERROR''),
      (''message'', Str (prefix @ str_exn e))]"

subsection \<open>The query texts\<close>

definition customer_pg_query :: string where
  "customer_pg_query =
     ''\<newline>        SELECT COUNT(*) as customer_count \<newline>        FROM customers \<newline>        WHERE created_date >= CURRENT_DATE - INTERVAL '1 month'\<newline>        ''"

definition customer_oracle_query :: string where
  "customer_oracle_query =
     ''\<newline>        SELECT COUNT(*) as customer_count \<newline>        FROM customers \<newline>        WHERE created_date >= ADD_MONTHS(TRUNC(SYSDATE), -1)\<newline>        ''"

definition customer_teradata_query :: string where
  "customer_teradata_query =
     ''\<newline>        SELECT COUNT(*) as customer_count \<newline>        FROM customers \<newline>        WHERE created_date >= ADD_MONTHS(CURRENT_DATE, -1)\<newline>        ''"

definition customer_snowflake_query :: string where
  "customer_snowflake_query =
     ''\<newline>        SELECT COUNT(*) as customer_count \<newline>        FROM customers \<newline>        WHERE created_date >= DATEADD(month, -1, CURRENT_DATE())\<newline>        ''"

definition revenue_pg_query :: string where
  "revenue_pg_query =
     ''\<newline>        SELECT date_trunc('day', transaction_date) as date,\<newline>               SUM(amount) as daily_revenue\<newline>        FROM transactions\<newline>        WHERE transaction_date >= CURRENT_DATE - INTERVAL '7 days'\<newline>        GROUP BY date_trunc('day', transaction_date)\<newline>        ORDER BY date\<newline>        ''"

definition revenue_snowflake_query :: string where
  "revenue_snowflake_query =
     ''\<newline>        SELECT DATE_TRUNC('day', transaction_date) as date,\<newline>               SUM(amount) as daily_revenue\<newline>        FROM transactions\<newline>        WHERE transaction_date >= DATEADD(day, -7, CURRENT_DATE())\<newline>        GROUP BY DATE_TRUNC('day', transaction_date)\<newline>        ORDER BY date\<newline>        ''"

definition inventory_pg_query :: string where
  "inventory_pg_query =
     ''\<newline>        SELECT \<newline>            product_id,\<newline>            product_name,\<newline>            current_stock,\<newline>            last_updated\<newline>        FROM inventory\<newline>        WHERE current_stock < reorder_point\<newline>        ''"

definition inventory_oracle_query :: string where
  "inventory_oracle_query =
     ''\<newline>        SELECT \<newline>            product_id,\<newline>            product_name,\<newline>            current_stock,\<newline>            last_updated\<newline>        FROM inventory\<newline>        WHERE current_stock < reorder_point\<newline>        ''"

subsection \<open>validate\_customer\_data\<close>

text \<open>
  \<open>customer_counts\<close> is the \<open>try\<close> block up to the dict \<open>results\<close>: the four queries with
  their first rows, then the four counts. \<open>validate_customer_data\<close> compares the counts
  and stores the status and the message in the dict; the \<open>except Exception\<close> handler
  returns the error dict.
\<close>

definition customer_counts :: "BusinessValidator \<Rightarrow> exn + result" where
  "customer_counts self =
     then_do (then_do (execute_query (postgres self) customer_pg_query) list_first) (\<lambda>pg_result.
     then_do (then_do (execute_query (oracle' self) customer_oracle_query) list_first) (\<lambda>oracle_result.
     then_do (then_do (execute_query (teradata self) customer_teradata_query) list_first) (\<lambda>teradata_result.
     then_do (then_do (execute_query (snowflake self) customer_snowflake_query) list_first) (\<lambda>snowflake_result.
     then_do (dict_getitem pg_result ''customer_count'') (\<lambda>c1.
     then_do (dict_getitem oracle_result ''customer_count'') (\<lambda>c2.
     then_do (dict_getitem teradata_result ''customer_count'') (\<lambda>c3.
     then_do (dict_getitem snowflake_result ''customer_count'') (\<lambda>c4.
       Inr [(''postgres_count'', Cell c1),
            (''oracle_count'', Cell c2),
            (''teradata_count'', Cell c3),
            (''snowflake_count'', Cell c4)]))))))))"

definition validate_customer_data :: "BusinessValidator \<Rightarrow> result" where
  "validate_customer_data self =
     (case customer_counts self of
        Inr results \<Rightarrow>
          (let counts = map snd results
           in if length (py_set counts) \<noteq> 1
              then AList.update ''message'' (Str ''Customer counts do not match across systems'')
                     (AList.update ''validation_status'' (Str ''FAILED'') results)
              else AList.update ''message'' (Str ''Customer counts match across all systems'')
                     (AList.update ''validation_status'' (Str ''PASSED'') results))
      | Inl e \<Rightarrow> error_result ''Error during validation: '' e)"

subsection \<open>validate\_revenue\_data\<close>

text \<open>
  \<open>revenue_discrepancies\<close> is the \<open>try\<close> block up to the frame \<open>discrepancies\<close>: the two
  queries, the merge on \<open>date\<close>, the column \<open>diff_percentage\<close> and the rows where it is
  above 1.
\<close>

definition revenue_discrepancies :: "BusinessValidator \<Rightarrow> exn + dataframe" where
  "revenue_discrepancies self =
     then_do (execute_query (postgres self) revenue_pg_query) (\<lambda>pg_rows.
     then_do (execute_query (snowflake self) revenue_snowflake_query) (\<lambda>snowflake_rows.
     then_do (merge (DataFrame pg_rows) (DataFrame snowflake_rows) [''date''] (''_pg'', ''_sf''))
       (\<lambda>merged_data.
     then_do (getitem merged_data ''daily_revenue_pg'') (\<lambda>revenue_pg.
     then_do (getitem merged_data ''daily_revenue_sf'') (\<lambda>revenue_sf.
     then_do (series_sub revenue_pg revenue_sf) (\<lambda>difference.
     then_do (getitem merged_data ''daily_revenue_pg'') (\<lambda>baseline.
     then_do (series_div difference baseline) (\<lambda>quotient.
     then_do (series_abs quotient) (\<lambda>magnitude.
     then_do (series_mul magnitude 100) (\<lambda>diff_percentage.
     then_do (getitem (setitem merged_data ''diff_percentage'' diff_percentage) ''diff_percentage'')
       (\<lambda>percentage.
     then_do (series_gt percentage 1) (\<lambda>keep.
       Inr (select_rows (setitem merged_data ''diff_percentage'' diff_percentage) keep)))))))))))))"

definition validate_revenue_data :: "BusinessValidator \<Rightarrow> result" where
  "validate_revenue_data self =
     (case revenue_discrepancies self of
        Inr discrepancies \<Rightarrow>
          (if 0 < len discrepancies
           then [(''validation_status'', Str ''FAILED''),
                 (''message'', Str (''Found '' @ str_nat (len discrepancies) @
                    '' days with revenue discrepancy > 1%'')),
                 (''discrepancies'', Records (to_dict_records discrepancies))]
           else [(''validation_status'', Str ''PASSED''),
                 (''message'', Str ''Revenue data matches within 1% tolerance across systems'')])
      | Inl e \<Rightarrow> error_result ''Error during validation: '' e)"

subsection \<open>validate\_inventory\_levels\<close>

definition inventory_discrepancies :: "BusinessValidator \<Rightarrow> exn + dataframe" where
  "inventory_discrepancies self =
     then_do (execute_query (postgres self) inventory_pg_query) (\<lambda>pg_rows.
     then_do (execute_query (oracle' self) inventory_oracle_query) (\<lambda>oracle_rows.
     then_do (merge (DataFrame pg_rows) (DataFrame oracle_rows)
                [''product_id'', ''product_name''] (''_pg'', ''_oracle''))
       (\<lambda>merged_data.
     then_do (getitem merged_data ''current_stock_pg'') (\<lambda>stock_pg.
     then_do (getitem merged_data ''current_stock_oracle'') (\<lambda>stock_oracle.
       Inr (select_rows merged_data (series_ne stock_pg stock_oracle)))))))"

definition validate_inventory_levels :: "BusinessValidator \<Rightarrow> result" where
  "validate_inventory_levels self =
     (case inventory_discrepancies self of
        Inr discrepancies \<Rightarrow>
          (if 0 < len discrepancies
           then [(''validation_status'', Str ''FAILED''),
                 (''message'', Str (''Found '' @ str_nat (len discrepancies) @
                    '' products with inventory discrepancies'')),
                 (''discrepancies'', Records (to_dict_records discrepancies))]
           else [(''validation_status'', Str ''PASSED''),
                 (''message'', Str ''Inventory levels match across systems'')])
      | Inl e \<Rightarrow> error_result ''Error during inventory validation: '' e)"

subsection \<open>main\<close>

text \<open>
  \<open>main\<close> prints a heading and two f-strings for each check, in turn. A printed line is
  a text, or a label followed by the object that the f-string formats.
\<close>

datatype printed = Print string | PrintF string pyobj

definition report :: "string \<Rightarrow> result \<Rightarrow> exn + printed list" where
  "report heading validation =
     then_do (dict_getitem validation ''validation_status'') (\<lambda>status.
     then_do (dict_getitem validation ''message'') (\<lambda>msg.
       Inr [Print heading, PrintF ''Status: '' status, PrintF ''Message: '' msg]))"

definition run_checks :: "BusinessValidator \<Rightarrow> exn + printed list" where
  "run_checks validator =
     then_do (report ''\<newline>Validating customer data...'' (validate_customer_data validator)) (\<lambda>out1.
     then_do (report ''\<newline>Validating revenue data...'' (validate_revenue_data validator)) (\<lambda>out2.
     then_do (report ''\<newline>Validating inventory levels...'' (validate_inventory_levels validator)) (\<lambda>out3.
       Inr (out1 @ out2 @ out3))))"

definition main :: "(connector_class \<Rightarrow> exn + cursor) \<Rightarrow> exn + printed list" where
  "main drivers = then_do (BusinessValidator_init drivers) run_checks"

section \<open>Connections for the examples\<close>

text \<open>
  A cursor that answers every query with the same result set, one that raises, and a
  validator over four connected cursors.
\<close>

definition fixed_cursor :: "string list \<Rightarrow> cell list list \<Rightarrow> cursor" where
  "fixed_cursor cols fetched = (\<lambda>query. Inr (cols, fetched))"

definition failing_cursor :: "string \<Rightarrow> cursor" where
  "failing_cursor msg = (\<lambda>query. Inl msg)"

definition connected :: "connector_class \<Rightarrow> cursor \<Rightarrow> connector" where
  "connected c cur = \<lparr>cls = c, cursor = Some cur\<rparr>"

definition validator_of :: "cursor \<Rightarrow> cursor \<Rightarrow> cursor \<Rightarrow> cursor \<Rightarrow> BusinessValidator" where
  "validator_of pg ora td sf =
     \<lparr>postgres = connected PostgresConnector pg,
      oracle' = connected OracleConnector ora,
      teradata = connected TeradataConnector td,
      snowflake = connected SnowflakeConnector sf\<rparr>"

definition status_of :: "result \<Rightarrow> pyobj option" where
  "status_of r = map_of r ''validation_status''"

section \<open>Result sets of the row-aligned queries\<close>

text \<open>
  The inventory queries select \<open>product_id, product_name, current_stock, last_updated\<close>
  and the revenue queries select \<open>date, daily_revenue\<close>. A result set with these columns
  is a list of items; \<open>inventory_row\<close> and \<open>revenue_row\<close> are the dicts that
  \<open>execute_query\<close> returns for them. The remaining definitions describe results: the
  joined record of a pair of rows with the same key, and the list of such records.
\<close>

record inventory_item =
  product_id :: cell
  product_name :: cell
  current_stock :: cell
  last_updated :: cell





record revenue_day =
  date :: cell
  daily_revenue :: cell

definition revenue_row :: "revenue_day \<Rightarrow> row" where
  "revenue_row a = [(''date'', date a), (''daily_revenue'', daily_revenue a)]"

definition same_date :: "revenue_day \<Rightarrow> revenue_day \<Rightarrow> bool" where
  "same_date a b = (canon (date a) = canon (date b))"

definition joined_days :: "revenue_day list \<Rightarrow> revenue_day list \<Rightarrow> (revenue_day \<times> revenue_day) list" where
  "joined_days A B = concat (map (\<lambda>a. map (Pair a) (filter (same_date a) B)) A)"


definition revenue_merged :: "revenue_day \<times> revenue_day \<Rightarrow> row" where
  "revenue_merged ab =
     [(''date'', date (fst ab)),
      (''daily_revenue_pg'', daily_revenue (fst ab)),
      (''daily_revenue_sf'', daily_revenue (snd ab))]"

text \<open>
  The arithmetic of \<open>validate_revenue_data\<close> on two columns, up to the comparison with
  1 (\<open>tolerance_pipeline\<close>), and the same arithmetic on one pair of cells
  (\<open>diff_percentage\<close>): \<open>abs((pg - sf) / pg) * 100\<close>.
\<close>

definition diff_percentage :: "cell \<Rightarrow> cell \<Rightarrow> exn + cell" where
  "diff_percentage pg sf =
     then_do (cell_sub pg sf) (\<lambda>difference.
     then_do (cell_div difference pg) (\<lambda>quotient.
     then_do (cell_abs quotient) (\<lambda>magnitude.
       cell_mul magnitude 100)))"

definition tolerance_pipeline :: "cell list \<Rightarrow> cell list \<Rightarrow> exn + cell list \<times> bool list" where
  "tolerance_pipeline pg sf =
     then_do (series_sub pg sf) (\<lambda>difference.
     then_do (series_div difference pg) (\<lambda>quotient.
     then_do (series_abs quotient) (\<lambda>magnitude.
     then_do (series_mul magnitude 100) (\<lambda>percentage.
     then_do (series_gt percentage 1) (\<lambda>keep.
       Inr (percentage, keep))))))"

section \<open>Decimal revenue and the tolerance formula\<close>




section \<open>Result sets for the examples\<close>


definition revenue_cursor :: "revenue_day list \<Rightarrow> cursor" where
  "revenue_cursor A =
     fixed_cursor [''date'', ''daily_revenue''] (map (\<lambda>a. [date a, daily_revenue a]) A)"






section \<open>Basic facts\<close>

lemma then_do_Inl [simp]: "then_do (Inl e) f = Inl e"
  by (simp add: then_do_def)

lemma then_do_Inr [simp]: "then_do (Inr x) f = f x"
  by (simp add: then_do_def)

subsection \<open>The dict of a list of pairs\<close>

lemma map_of_py_dict_aux:
  "map_of (foldl (\<lambda>d (k, v). AList.update k v d) acc kvs) = map_of (rev kvs @ acc)"
proof (induction kvs arbitrary: acc)
  case Nil
  show ?case by simp
next
  case (Cons p kvs)
  obtain k v where p: "p = (k, v)" by (cases p)
  have "map_of (foldl (\<lambda>d (k, v). AList.update k v d) (AList.update k v acc) kvs)
        = map_of (rev kvs @ AList.update k v acc)"
    by (rule Cons.IH)
  also have "\<dots> = map_of (rev kvs @ (k, v) # acc)"
    by (rule ext) (simp add: map_add_def update_conv' split: option.splits)
  finally show ?case by (simp add: p)
qed

lemma map_of_py_dict: "map_of (py_dict kvs) = map_of (rev kvs)"
  by (simp add: py_dict_def map_of_py_dict_aux)

lemma distinct_py_dict_aux:
  "distinct (map fst acc) \<Longrightarrow> distinct (map fst (foldl (\<lambda>d (k, v). AList.update k v d) acc kvs))"
  by (induction kvs arbitrary: acc) (auto simp: distinct_update split: prod.splits)

lemma distinct_py_dict: "distinct (map fst (py_dict kvs))"
  by (simp add: py_dict_def distinct_py_dict_aux)

lemma keys_py_dict: "set (map fst (py_dict kvs)) = set (map fst kvs)"
proof -
  have "dom (map_of (py_dict kvs)) = dom (map_of (rev kvs))"
    by (simp add: map_of_py_dict)
  then show ?thesis
    by (simp add: dom_map_of_conv_image_fst)
qed

lemma length_py_dict: "length (py_dict kvs) = card (set (map fst kvs))"
proof -
  have "length (py_dict kvs) = length (map fst (py_dict kvs))" by simp
  also have "\<dots> = card (set (map fst (py_dict kvs)))"
    using distinct_py_dict [of kvs] by (simp only: distinct_card)
  finally show ?thesis by (simp only: keys_py_dict)
qed

lemma update_fresh: "k \<notin> fst ` set al \<Longrightarrow> AList.update k v al = al @ [(k, v)]"
  by (induction al) auto

lemma py_dict_distinct_aux:
  "distinct (map fst (acc @ kvs)) \<Longrightarrow> foldl (\<lambda>d (k, v). AList.update k v d) acc kvs = acc @ kvs"
proof (induction kvs arbitrary: acc)
  case Nil
  show ?case by simp
next
  case (Cons p kvs)
  obtain k v where p: "p = (k, v)" by (cases p)
  from Cons.prems have fresh: "k \<notin> fst ` set acc" by (auto simp: p)
  from Cons.prems have "distinct (map fst ((acc @ [(k, v)]) @ kvs))" by (simp add: p)
  then have "foldl (\<lambda>d (k, v). AList.update k v d) (acc @ [(k, v)]) kvs = (acc @ [(k, v)]) @ kvs"
    by (rule Cons.IH)
  then show ?case by (simp add: p update_fresh [OF fresh])
qed

lemma py_dict_distinct: "distinct (map fst kvs) \<Longrightarrow> py_dict kvs = kvs"
  using py_dict_distinct_aux [of "[]" kvs] by (simp add: py_dict_def)

section \<open>execute\_query and get\_connector\<close>

text \<open>
  Claim C10. When the cursor answers the query, \<open>execute_query\<close> returns one dict per
  fetched row, built from the pairs of \<open>zip(columns, row)\<close> in order, so that under each
  column name the value of the last column of that name is found. The keys of a dict
  are distinct: when two columns share a name, the dict of a full row has fewer entries
  than the row has columns.
\<close>

theorem execute_query_zips_columns:
  assumes "cursor self = Some cur" and "cur query = Inr (cols, fetched)"
  shows "\<exists>rows. execute_query self query = Inr rows \<and> length rows = length fetched \<and>
           (\<forall>i<length fetched.
              rows ! i = py_dict (zip cols (fetched ! i)) \<and>
              map_of (rows ! i) = map_of (rev (zip cols (fetched ! i))) \<and>
              distinct (map fst (rows ! i)) \<and>
              (length (fetched ! i) = length cols \<and> \<not> distinct cols
                 \<longrightarrow> length (rows ! i) < length cols))"
proof -
  let ?rows = "map (\<lambda>row. py_dict (zip cols row)) fetched"
  have run: "execute_query self query = Inr ?rows"
    using assms by (simp add: execute_query_def)
  have fewer: "length (py_dict (zip cols row)) < length cols"
    if "length row = length cols" and "\<not> distinct cols" for row :: "cell list"
  proof -
    have "map fst (zip cols row) = cols"
      using that(1) by simp
    then have "length (py_dict (zip cols row)) = card (set cols)"
      by (simp add: length_py_dict)
    moreover have "card (set cols) \<noteq> length cols"
      using that(2) card_distinct by blast
    moreover have "card (set cols) \<le> length cols"
      by (rule card_length)
    ultimately show ?thesis by linarith
  qed
  show ?thesis
    using run fewer by (auto simp: map_of_py_dict distinct_py_dict)
qed

text \<open>
  The columns \<open>a, b, a\<close> with the row \<open>(1, 2, 3)\<close>: the dict is \<open>{a: 3, b: 2}\<close>, two entries
  for three columns.
\<close>

theorem execute_query_zips_columns_witness:
  "cursor (connected PostgresConnector (fixed_cursor [''a'', ''b'', ''a''] [[VInt 1, VInt 2, VInt 3]]))
     = Some (fixed_cursor [''a'', ''b'', ''a''] [[VInt 1, VInt 2, VInt 3]]) \<and>
   fixed_cursor [''a'', ''b'', ''a''] [[VInt 1, VInt 2, VInt 3]] ''SELECT 1''
     = Inr ([''a'', ''b'', ''a''], [[VInt 1, VInt 2, VInt 3]]) \<and>
   execute_query (connected PostgresConnector (fixed_cursor [''a'', ''b'', ''a''] [[VInt 1, VInt 2, VInt 3]]))
     ''SELECT 1'' = Inr [[(''a'', VInt 3), (''b'', VInt 2)]] \<and>
   (\<exists>rows. execute_query (connected PostgresConnector (fixed_cursor [''a'', ''b'', ''a''] [[VInt 1, VInt 2, VInt 3]]))
        ''SELECT 1'' = Inr rows \<and> length rows = 1 \<and> length (rows ! 0) < 3)"
proof -
  let ?cur = "fixed_cursor [''a'', ''b'', ''a''] [[VInt 1, VInt 2, VInt 3]]"
  have h1: "cursor (connected PostgresConnector ?cur) = Some ?cur"
    by (simp add: connected_def)
  have h2: "?cur ''SELECT 1'' = Inr ([''a'', ''b'', ''a''], [[VInt 1, VInt 2, VInt 3]])"
    by (simp add: fixed_cursor_def)
  have run: "execute_query (connected PostgresConnector ?cur) ''SELECT 1''
      = Inr [[(''a'', VInt 3), (''b'', VInt 2)]]"
    by (simp add: execute_query_def connected_def fixed_cursor_def py_dict_def)
  from execute_query_zips_columns [OF h1 h2] obtain rows where
    r: "execute_query (connected PostgresConnector ?cur) ''SELECT 1'' = Inr rows"
      "length rows = length [[VInt 1, VInt 2, VInt 3]]"
      "\<forall>i<length [[VInt 1, VInt 2, VInt 3]].
          length ([[VInt 1, VInt 2, VInt 3]] ! i) = length [''a'', ''b'', ''a''] \<and> \<not> distinct [''a'', ''b'', ''a'']
            \<longrightarrow> length (rows ! i) < length [''a'', ''b'', ''a'']"
    by blast
  from r(3) have "length (rows ! 0) < 3" by simp
  with r(1,2) h1 h2 run show ?thesis by auto
qed

text \<open>
  Claim C9. A name outside the table of \<open>get_connector\<close> raises \<open>ValueError\<close> with the
  message \<open>Unsupported database type:\<close> followed by the name. For each of the four names
  of the table, \<open>get_connector\<close> calls the constructor of the class of that name: it
  returns the new instance of that class, and an exception of the constructor passes
  through.
\<close>

theorem get_connector_table:
  "(db_type \<notin> {''postgres'', ''oracle'', ''teradata'', ''snowflake''} \<longrightarrow>
      get_connector drivers db_type = Inl (ValueError (''Unsupported database type: '' @ db_type))) \<and>
   get_connector drivers ''postgres'' =
     (case drivers PostgresConnector of Inl e \<Rightarrow> Inl e
      | Inr cur \<Rightarrow> Inr \<lparr>cls = PostgresConnector, cursor = Some cur\<rparr>) \<and>
   get_connector drivers ''oracle'' =
     (case drivers OracleConnector of Inl e \<Rightarrow> Inl e
      | Inr cur \<Rightarrow> Inr \<lparr>cls = OracleConnector, cursor = Some cur\<rparr>) \<and>
   get_connector drivers ''teradata'' =
     (case drivers TeradataConnector of Inl e \<Rightarrow> Inl e
      | Inr cur \<Rightarrow> Inr \<lparr>cls = TeradataConnector, cursor = Some cur\<rparr>) \<and>
   get_connector drivers ''snowflake'' =
     (case drivers SnowflakeConnector of Inl e \<Rightarrow> Inl e
      | Inr cur \<Rightarrow> Inr \<lparr>cls = SnowflakeConnector, cursor = Some cur\<rparr>)"
  by (simp add: get_connector_def connectors_def construct_def then_do_def)

theorem get_connector_table_witness:
  "''mysql'' \<notin> {''postgres'', ''oracle'', ''teradata'', ''snowflake''} \<and>
   get_connector (\<lambda>c. Inr (fixed_cursor [] [])) ''mysql''
     = Inl (ValueError ''Unsupported database type: mysql'') \<and>
   get_connector (\<lambda>c. Inr (fixed_cursor [] [])) ''oracle''
     = Inr \<lparr>cls = OracleConnector, cursor = Some (fixed_cursor [] [])\<rparr>"
  using get_connector_table [of "''mysql''" "\<lambda>c. Inr (fixed_cursor [] [])"] by simp

section \<open>The customer count check\<close>

lemma then_do_eq_Inr: "then_do m f = Inr y \<longleftrightarrow> (\<exists>x. m = Inr x \<and> f x = Inr y)"
  by (cases m) simp_all

lemma py_set_four:
  "length (py_set [Cell a, Cell b, Cell c, Cell d]) = 1
     \<longleftrightarrow> canon a = canon b \<and> canon b = canon c \<and> canon c = canon d"
  by (auto simp: py_set_def)

lemma canon_VInt_eq: "canon (VInt a) = canon (VInt b) \<longleftrightarrow> a = b"
  by simp

lemma customer_counts_shape:
  assumes "customer_counts self = Inr results"
  shows "\<exists>c1 c2 c3 c4. results =
           [(''postgres_count'', Cell c1), (''oracle_count'', Cell c2),
            (''teradata_count'', Cell c3), (''snowflake_count'', Cell c4)]"
  using assms unfolding customer_counts_def then_do_eq_Inr by blast

lemma validate_customer_data_counts:
  assumes "customer_counts self =
     Inr [(''postgres_count'', Cell c1), (''oracle_count'', Cell c2),
          (''teradata_count'', Cell c3), (''snowflake_count'', Cell c4)]"
  shows "validate_customer_data self =
     [(''postgres_count'', Cell c1), (''oracle_count'', Cell c2),
      (''teradata_count'', Cell c3), (''snowflake_count'', Cell c4),
      (''validation_status'',
         Str (if canon c1 = canon c2 \<and> canon c2 = canon c3 \<and> canon c3 = canon c4
              then ''PASSED'' else ''FAILED'')),
      (''message'',
         Str (if canon c1 = canon c2 \<and> canon c2 = canon c3 \<and> canon c3 = canon c4
              then ''Customer counts match across all systems''
              else ''Customer counts do not match across systems''))]"
  using py_set_four [of c1 c2 c3 c4]
  by (simp add: validate_customer_data_def assms Let_def)

lemma validate_customer_data_error:
  "customer_counts self = Inl e \<Longrightarrow>
     validate_customer_data self = error_result ''Error during validation: '' e"
  by (simp add: validate_customer_data_def)

lemma status_error_result [simp]: "status_of (error_result p e) = Some (Str ''ERROR'')"
  by (simp add: status_of_def error_result_def)

lemma execute_query_failing:
  "execute_query (connected c (failing_cursor msg)) q = Inl (Exception (''Error executing query: '' @ msg))"
  by (simp add: execute_query_def connected_def failing_cursor_def)

lemma execute_query_fixed:
  "execute_query (connected c (fixed_cursor cols fetched)) q
     = Inr (map (\<lambda>row. py_dict (zip cols row)) fetched)"
  by (simp add: execute_query_def connected_def fixed_cursor_def)

text \<open>
  Claim C2. When each of the four queries returns a first row with an integer
  \<open>customer_count\<close>, the status is \<open>PASSED\<close> exactly when the four counts are the same
  and \<open>FAILED\<close> otherwise, and in both cases the result holds the value of every source
  under \<open>postgres_count\<close>, \<open>oracle_count\<close>, \<open>teradata_count\<close> and \<open>snowflake_count\<close>.
\<close>

theorem customer_counts_exact_match:
  assumes "execute_query (postgres self) customer_pg_query = Inr (r1 # rs1)"
      and "execute_query (oracle' self) customer_oracle_query = Inr (r2 # rs2)"
      and "execute_query (teradata self) customer_teradata_query = Inr (r3 # rs3)"
      and "execute_query (snowflake self) customer_snowflake_query = Inr (r4 # rs4)"
      and "map_of r1 ''customer_count'' = Some (VInt a)"
      and "map_of r2 ''customer_count'' = Some (VInt b)"
      and "map_of r3 ''customer_count'' = Some (VInt c)"
      and "map_of r4 ''customer_count'' = Some (VInt d)"
  shows "validate_customer_data self =
           [(''postgres_count'', Cell (VInt a)), (''oracle_count'', Cell (VInt b)),
            (''teradata_count'', Cell (VInt c)), (''snowflake_count'', Cell (VInt d)),
            (''validation_status'',
               Str (if a = b \<and> b = c \<and> c = d then ''PASSED'' else ''FAILED'')),
            (''message'',
               Str (if a = b \<and> b = c \<and> c = d
                    then ''Customer counts match across all systems''
                    else ''Customer counts do not match across systems''))] \<and>
         (status_of (validate_customer_data self) = Some (Str ''PASSED'')
            \<longleftrightarrow> a = b \<and> b = c \<and> c = d) \<and>
         (status_of (validate_customer_data self) = Some (Str ''FAILED'')
            \<longleftrightarrow> \<not> (a = b \<and> b = c \<and> c = d))"
proof -
  have "customer_counts self =
     Inr [(''postgres_count'', Cell (VInt a)), (''oracle_count'', Cell (VInt b)),
          (''teradata_count'', Cell (VInt c)), (''snowflake_count'', Cell (VInt d))]"
    using assms by (simp add: customer_counts_def list_first_def dict_getitem_def)
  from validate_customer_data_counts [OF this]
  show ?thesis by (simp add: status_of_def)
qed

text \<open>Three sources count 5 and Snowflake counts 6: \<open>FAILED\<close>, with the four values.\<close>

theorem customer_counts_exact_match_witness:
  "execute_query (postgres (validator_of (fixed_cursor [''customer_count''] [[VInt 5]])
       (fixed_cursor [''customer_count''] [[VInt 5]]) (fixed_cursor [''customer_count''] [[VInt 5]])
       (fixed_cursor [''customer_count''] [[VInt 6]]))) customer_pg_query
     = Inr [[(''customer_count'', VInt 5)]] \<and>
   validate_customer_data (validator_of (fixed_cursor [''customer_count''] [[VInt 5]])
       (fixed_cursor [''customer_count''] [[VInt 5]]) (fixed_cursor [''customer_count''] [[VInt 5]])
       (fixed_cursor [''customer_count''] [[VInt 6]]))
     = [(''postgres_count'', Cell (VInt 5)), (''oracle_count'', Cell (VInt 5)),
        (''teradata_count'', Cell (VInt 5)), (''snowflake_count'', Cell (VInt 6)),
        (''validation_status'', Str ''FAILED''),
        (''message'', Str ''Customer counts do not match across systems'')]"
proof -
  let ?five = "fixed_cursor [''customer_count''] [[VInt 5]]"
  let ?six = "fixed_cursor [''customer_count''] [[VInt 6]]"
  let ?v = "validator_of ?five ?five ?five ?six"
  have run: "execute_query (connected c (fixed_cursor [''customer_count''] [[VInt n]])) q
      = Inr ([(''customer_count'', VInt n)] # [])" for c n q
    by (simp add: execute_query_def connected_def fixed_cursor_def py_dict_def)
  have h1: "execute_query (postgres ?v) customer_pg_query = Inr ([(''customer_count'', VInt 5)] # [])"
    and h2: "execute_query (oracle' ?v) customer_oracle_query = Inr ([(''customer_count'', VInt 5)] # [])"
    and h3: "execute_query (teradata ?v) customer_teradata_query = Inr ([(''customer_count'', VInt 5)] # [])"
    and h4: "execute_query (snowflake ?v) customer_snowflake_query = Inr ([(''customer_count'', VInt 6)] # [])"
    by (simp_all add: validator_of_def run)
  have m5: "map_of [(''customer_count'', VInt 5)] ''customer_count'' = Some (VInt 5)"
    and m6: "map_of [(''customer_count'', VInt 6)] ''customer_count'' = Some (VInt 6)"
    by simp_all
  from customer_counts_exact_match [OF h1 h2 h3 h4 m5 m5 m5 m6] h1
  show ?thesis by simp
qed

section \<open>Status of a result\<close>





section \<open>Exceptions inside a check\<close>

lemma report_total:
  assumes "map_of r ''validation_status'' = Some s" and "map_of r ''message'' = Some m"
  shows "report heading r = Inr [Print heading, PrintF ''Status: '' s, PrintF ''Message: '' m]"
  using assms by (simp add: report_def dict_getitem_def)

lemma customer_has_status_message:
  "\<exists>s m. map_of (validate_customer_data self) ''validation_status'' = Some s \<and>
         map_of (validate_customer_data self) ''message'' = Some m"
proof (cases "customer_counts self")
  case (Inl e)
  then show ?thesis
    by (simp add: validate_customer_data_error error_result_def)
next
  case (Inr results)
  from customer_counts_shape [OF Inr] obtain c1 c2 c3 c4 where
    shape: "results = [(''postgres_count'', Cell c1), (''oracle_count'', Cell c2),
                       (''teradata_count'', Cell c3), (''snowflake_count'', Cell c4)]"
    by blast
  from validate_customer_data_counts [of self c1 c2 c3 c4] Inr shape
  show ?thesis by simp
qed

lemma revenue_has_status_message:
  "\<exists>s m. map_of (validate_revenue_data self) ''validation_status'' = Some s \<and>
         map_of (validate_revenue_data self) ''message'' = Some m"
  by (cases "revenue_discrepancies self")
     (simp_all add: validate_revenue_data_def error_result_def)

lemma inventory_has_status_message:
  "\<exists>s m. map_of (validate_inventory_levels self) ''validation_status'' = Some s \<and>
         map_of (validate_inventory_levels self) ''message'' = Some m"
  by (cases "inventory_discrepancies self")
     (simp_all add: validate_inventory_levels_def error_result_def)

lemma run_checks_total: "\<exists>out. run_checks self = Inr out \<and> length out = 9"
proof -
  obtain s1 m1 where c: "map_of (validate_customer_data self) ''validation_status'' = Some s1"
      "map_of (validate_customer_data self) ''message'' = Some m1"
    using customer_has_status_message by blast
  obtain s2 m2 where r: "map_of (validate_revenue_data self) ''validation_status'' = Some s2"
      "map_of (validate_revenue_data self) ''message'' = Some m2"
    using revenue_has_status_message by blast
  obtain s3 m3 where i: "map_of (validate_inventory_levels self) ''validation_status'' = Some s3"
      "map_of (validate_inventory_levels self) ''message'' = Some m3"
    using inventory_has_status_message by blast
  show ?thesis
    by (simp add: run_checks_def report_total [OF c] report_total [OF r] report_total [OF i])
qed

text \<open>
  Claim C5. Whatever exception \<open>e\<close> a statement of the \<open>try\<close> block of a check raises
  (a query that fails, a missing row or column, the merge, the arithmetic), the check
  returns the dict of the status \<open>ERROR\<close> and a message that ends with \<open>str(e)\<close>. The
  checks return a result on every input, so the three checks of \<open>main\<close> all run and all
  nine lines are printed, whatever the connections do.
\<close>

theorem exceptions_become_error_results:
  "(customer_counts self = Inl e \<longrightarrow>
      validate_customer_data self =
        [(''validation_status'', Str ''ERROR''),
         (''message'', Str (''Error during validation: '' @ str_exn e))]) \<and>
   (revenue_discrepancies self = Inl e \<longrightarrow>
      validate_revenue_data self =
        [(''validation_status'', Str ''ERROR''),
         (''message'', Str (''Error during validation: '' @ str_exn e))]) \<and>
   (inventory_discrepancies self = Inl e \<longrightarrow>
      validate_inventory_levels self =
        [(''validation_status'', Str ''ERROR''),
         (''message'', Str (''Error during inventory validation: '' @ str_exn e))]) \<and>
   (\<exists>out. run_checks self = Inr out \<and> length out = 9)"
  using run_checks_total [of self]
  by (simp add: validate_customer_data_def validate_revenue_data_def
      validate_inventory_levels_def error_result_def)

text \<open>Every cursor raises \<open>connection lost\<close>: each check returns its \<open>ERROR\<close> dict.\<close>

theorem exceptions_become_error_results_witness:
  "customer_counts (validator_of (failing_cursor ''connection lost'') (failing_cursor ''connection lost'')
       (failing_cursor ''connection lost'') (failing_cursor ''connection lost''))
     = Inl (Exception ''Error executing query: connection lost'') \<and>
   revenue_discrepancies (validator_of (failing_cursor ''connection lost'') (failing_cursor ''connection lost'')
       (failing_cursor ''connection lost'') (failing_cursor ''connection lost''))
     = Inl (Exception ''Error executing query: connection lost'') \<and>
   inventory_discrepancies (validator_of (failing_cursor ''connection lost'') (failing_cursor ''connection lost'')
       (failing_cursor ''connection lost'') (failing_cursor ''connection lost''))
     = Inl (Exception ''Error executing query: connection lost'') \<and>
   validate_customer_data (validator_of (failing_cursor ''connection lost'') (failing_cursor ''connection lost'')
       (failing_cursor ''connection lost'') (failing_cursor ''connection lost''))
     = [(''validation_status'', Str ''ERROR''),
        (''message'', Str ''Error during validation: Error executing query: connection lost'')] \<and>
   validate_revenue_data (validator_of (failing_cursor ''connection lost'') (failing_cursor ''connection lost'')
       (failing_cursor ''connection lost'') (failing_cursor ''connection lost''))
     = [(''validation_status'', Str ''ERROR''),
        (''message'', Str ''Error during validation: Error executing query: connection lost'')] \<and>
   validate_inventory_levels (validator_of (failing_cursor ''connection lost'') (failing_cursor ''connection lost'')
       (failing_cursor ''connection lost'') (failing_cursor ''connection lost''))
     = [(''validation_status'', Str ''ERROR''),
        (''message'', Str ''Error during inventory validation: Error executing query: connection lost'')]"
proof -
  let ?v = "validator_of (failing_cursor ''connection lost'') (failing_cursor ''connection lost'')
       (failing_cursor ''connection lost'') (failing_cursor ''connection lost'')"
  let ?e = "Exception ''Error executing query: connection lost''"
  have c: "customer_counts ?v = Inl ?e"
    by (simp add: customer_counts_def validator_of_def execute_query_failing)
  have r: "revenue_discrepancies ?v = Inl ?e"
    by (simp add: revenue_discrepancies_def validator_of_def execute_query_failing)
  have i: "inventory_discrepancies ?v = Inl ?e"
    by (simp add: inventory_discrepancies_def validator_of_def execute_query_failing)
  from exceptions_become_error_results [of ?v ?e] c r i
  show ?thesis by simp
qed

section \<open>Empty result sets\<close>

lemma DataFrame_empty: "DataFrame [] = \<lparr>columns = [], records = []\<rparr>"
  by (simp add: DataFrame_def first_seen_def)

lemma merge_no_columns:
  "merge \<lparr>columns = [], records = []\<rparr> right (k # ks) suffixes = Inl (KeyError k)"
  by (simp add: merge_def)

text \<open>
  Claim C6. The code does not do what the claim says: when the queries of a row-aligned
  check return no rows, \<open>pd.DataFrame([])\<close> has no columns, \<open>pd.merge\<close> raises \<open>KeyError\<close> for
  the first join key, and the check returns \<open>ERROR\<close> instead of \<open>PASSED\<close>.
\<close>

theorem empty_result_sets_give_error:
  assumes "execute_query (postgres self) revenue_pg_query = Inr []"
      and "execute_query (snowflake self) revenue_snowflake_query = Inr []"
      and "execute_query (postgres self) inventory_pg_query = Inr []"
      and "execute_query (oracle' self) inventory_oracle_query = Inr []"
  shows "validate_revenue_data self =
           [(''validation_status'', Str ''ERROR''),
            (''message'', Str (''Error during validation: '' @ str_exn (KeyError ''date'')))] \<and>
         validate_inventory_levels self =
           [(''validation_status'', Str ''ERROR''),
            (''message'', Str (''Error during inventory validation: '' @ str_exn (KeyError ''product_id'')))]"
proof -
  have "revenue_discrepancies self = Inl (KeyError ''date'')"
    using assms(1,2) by (simp add: revenue_discrepancies_def DataFrame_empty merge_no_columns)
  moreover have "inventory_discrepancies self = Inl (KeyError ''product_id'')"
    using assms(3,4) by (simp add: inventory_discrepancies_def DataFrame_empty merge_no_columns)
  ultimately show ?thesis
    by (simp add: validate_revenue_data_def validate_inventory_levels_def error_result_def)
qed

theorem empty_result_sets_give_error_witness:
  "execute_query (postgres (validator_of (fixed_cursor [] []) (fixed_cursor [] [])
       (fixed_cursor [] []) (fixed_cursor [] []))) revenue_pg_query = Inr [] \<and>
   status_of (validate_revenue_data (validator_of (fixed_cursor [] []) (fixed_cursor [] [])
       (fixed_cursor [] []) (fixed_cursor [] []))) = Some (Str ''ERROR'') \<and>
   status_of (validate_inventory_levels (validator_of (fixed_cursor [] []) (fixed_cursor [] [])
       (fixed_cursor [] []) (fixed_cursor [] []))) = Some (Str ''ERROR'')"
proof -
  let ?v = "validator_of (fixed_cursor [] []) (fixed_cursor [] []) (fixed_cursor [] []) (fixed_cursor [] [])"
  have h: "execute_query (postgres ?v) revenue_pg_query = Inr []"
    "execute_query (snowflake ?v) revenue_snowflake_query = Inr []"
    "execute_query (postgres ?v) inventory_pg_query = Inr []"
    "execute_query (oracle' ?v) inventory_oracle_query = Inr []"
    by (simp_all add: validator_of_def execute_query_fixed)
  from empty_result_sets_give_error [OF h] h(1)
  show ?thesis by (simp add: status_of_def)
qed

section \<open>Frames of well-formed result sets\<close>

lemma remdups_absorb: "set ys \<subseteq> set xs \<Longrightarrow> remdups (ys @ xs) = remdups xs"
  by (induction ys) auto

lemma first_seen_absorb:
  assumes "distinct xs" and "set ys \<subseteq> set xs"
  shows "first_seen (xs @ ys) = xs"
proof -
  have "remdups (rev ys @ rev xs) = remdups (rev xs)"
    using assms(2) by (intro remdups_absorb) simp
  also have "\<dots> = rev xs"
    using assms(1) by (simp add: distinct_remdups_id)
  finally show ?thesis by (simp add: first_seen_def)
qed

lemma DataFrame_uniform:
  assumes "data \<noteq> []" and "distinct cols" and "\<forall>r\<in>set data. map fst r = cols"
  shows "DataFrame data = \<lparr>columns = cols, records = data\<rparr>"
proof -
  from assms(1) obtain r rs where data: "data = r # rs" by (cases data) auto
  have "map fst r = cols" using assms(3) data by simp
  have "set (concat (map (map fst) rs)) \<subseteq> set cols"
    using assms(3) data by auto
  then have cols: "first_seen (concat (map (map fst) data)) = cols"
    using first_seen_absorb [OF assms(2), of "concat (map (map fst) rs)"] \<open>map fst r = cols\<close>
    by (simp add: data)
  have "map (\<lambda>c. (c, cell_of x c)) cols = x" if "x \<in> set data" for x
  proof -
    from that assms(3) have k: "map fst x = cols" by blast
    with assms(2) have d: "distinct (map fst x)" by simp
    have "map (\<lambda>c. (c, cell_of x c)) (map fst x) = x"
    proof (rule nth_equalityI)
      show "length (map (\<lambda>c. (c, cell_of x c)) (map fst x)) = length x" by simp
    next
      fix i assume "i < length (map (\<lambda>c. (c, cell_of x c)) (map fst x))"
      then have i: "i < length x" by simp
      then have "x ! i \<in> set x" by simp
      then have "map_of x (fst (x ! i)) = Some (snd (x ! i))"
        using d by (simp add: map_of_eq_Some_iff)
      then show "map (\<lambda>c. (c, cell_of x c)) (map fst x) ! i = x ! i"
        using i by (simp add: cell_of_def)
    qed
    then show ?thesis by (simp add: k)
  qed
  then have "map (\<lambda>r. map (\<lambda>c. (c, cell_of r c)) cols) data = data"
    by (simp add: map_idI)
  with cols show ?thesis by (simp add: DataFrame_def Let_def)
qed







section \<open>The tolerance arithmetic, column by column and row by row\<close>


lemma sequence_Inl_mem: "Inl e \<in> set ms \<Longrightarrow> \<exists>e'. sequence ms = Inl e'"
  by (induction ms) (auto split: sum.splits)

lemma sequence_length: "sequence ms = Inr xs \<Longrightarrow> length xs = length ms"
  by (induction ms arbitrary: xs) (auto split: sum.splits)





lemma pipeline_Inr_pointwise:
  "tolerance_pipeline (map f xs) (map g xs) = Inr (ps, ks) \<Longrightarrow>
     \<forall>x\<in>set xs. \<exists>p k. diff_percentage (f x) (g x) = Inr p \<and> cell_gt p 1 = Inr k"
proof (induction xs arbitrary: ps ks)
  case Nil
  show ?case by simp
next
  case (Cons x xs)
  from Cons.prems obtain ds qs ms where
    st: "series_sub (map f (x # xs)) (map g (x # xs)) = Inr ds"
        "series_div ds (map f (x # xs)) = Inr qs"
        "series_abs qs = Inr ms"
        "series_mul ms 100 = Inr ps"
        "series_gt ps 1 = Inr ks"
    unfolding tolerance_pipeline_def then_do_eq_Inr by auto
  from st(1) obtain d ds' where d: "ds = d # ds'" "cell_sub (f x) (g x) = Inr d"
      "series_sub (map f xs) (map g xs) = Inr ds'"
    by (auto simp: series_sub_def split: sum.splits)
  from st(2) d(1) obtain q qs' where q: "qs = q # qs'" "cell_div d (f x) = Inr q"
      "series_div ds' (map f xs) = Inr qs'"
    by (auto simp: series_div_def split: sum.splits)
  from st(3) q(1) obtain m ms' where m: "ms = m # ms'" "cell_abs q = Inr m"
      "series_abs qs' = Inr ms'"
    by (auto simp: series_abs_def split: sum.splits)
  from st(4) m(1) obtain p ps' where p: "ps = p # ps'" "cell_mul m 100 = Inr p"
      "series_mul ms' 100 = Inr ps'"
    by (auto simp: series_mul_def split: sum.splits)
  from st(5) p(1) obtain k ks' where k: "ks = k # ks'" "cell_gt p 1 = Inr k"
      "series_gt ps' 1 = Inr ks'"
    by (auto simp: series_gt_def split: sum.splits)
  have "tolerance_pipeline (map f xs) (map g xs) = Inr (ps', ks')"
    by (simp add: tolerance_pipeline_def d(3) q(3) m(3) p(3) k(3))
  from Cons.IH [OF this] have rest:
    "\<forall>x\<in>set xs. \<exists>p k. diff_percentage (f x) (g x) = Inr p \<and> cell_gt p 1 = Inr k" .
  have "diff_percentage (f x) (g x) = Inr p"
    by (simp add: diff_percentage_def d(2) q(2) m(2) p(2))
  with k(2) rest show ?case by auto
qed

lemma DataFrame_revenue:
  "A \<noteq> [] \<Longrightarrow> DataFrame (map revenue_row A) =
     \<lparr>columns = [''date'', ''daily_revenue''], records = map revenue_row A\<rparr>"
  by (rule DataFrame_uniform) (auto simp: revenue_row_def)

lemma merge_revenue:
  "merge \<lparr>columns = [''date'', ''daily_revenue''], records = map revenue_row A\<rparr>
         \<lparr>columns = [''date'', ''daily_revenue''], records = map revenue_row B\<rparr>
         [''date''] (''_pg'', ''_sf'')
   = Inr \<lparr>columns = [''date'', ''daily_revenue_pg'', ''daily_revenue_sf''],
           records = map revenue_merged (joined_days A B)\<rparr>"
  by (simp add: merge_def Let_def filter_map o_def keys_match_def cell_of_def revenue_row_def
      revenue_merged_def [abs_def] same_date_def [abs_def] joined_days_def map_concat)

lemma getitem_setitem_new:
  assumes "length s = length rs"
  shows "getitem (setitem \<lparr>columns = cs, records = rs\<rparr> c s) c = Inr s"
proof -
  have "map (\<lambda>r. cell_of r c) (map (\<lambda>(r, v). AList.update c v r) (zip rs s)) = map snd (zip rs s)"
    by (simp add: cell_of_def update_conv' split_def)
  also have "\<dots> = s"
    using assms by simp
  finally show ?thesis
    by (simp add: getitem_def setitem_def)
qed


lemma series_length:
  "series_sub xs ys = Inr ds \<Longrightarrow> length ds = min (length xs) (length ys)"
  "series_div xs ys = Inr qs \<Longrightarrow> length qs = min (length xs) (length ys)"
  "series_abs xs = Inr ms \<Longrightarrow> length ms = length xs"
  "series_mul xs n = Inr ps \<Longrightarrow> length ps = length xs"
  by (auto simp: series_sub_def series_div_def series_abs_def series_mul_def dest!: sequence_length)

lemma revenue_discrepancies_pipeline:
  assumes "execute_query (postgres self) revenue_pg_query = Inr (map revenue_row A)"
      and "execute_query (snowflake self) revenue_snowflake_query = Inr (map revenue_row B)"
      and "A \<noteq> []" and "B \<noteq> []"
  shows "revenue_discrepancies self =
           then_do (tolerance_pipeline (map (\<lambda>ab. daily_revenue (fst ab)) (joined_days A B))
                                       (map (\<lambda>ab. daily_revenue (snd ab)) (joined_days A B)))
             (\<lambda>pk. Inr (select_rows
                (setitem \<lparr>columns = [''date'', ''daily_revenue_pg'', ''daily_revenue_sf''],
                          records = map revenue_merged (joined_days A B)\<rparr>
                   ''diff_percentage'' (fst pk)) (snd pk)))"
proof -
  let ?J = "joined_days A B"
  let ?M = "\<lparr>columns = [''date'', ''daily_revenue_pg'', ''daily_revenue_sf''],
             records = map revenue_merged ?J\<rparr>"
  let ?X = "map (\<lambda>ab. daily_revenue (fst ab)) ?J"
  let ?Y = "map (\<lambda>ab. daily_revenue (snd ab)) ?J"
  have gx: "getitem ?M ''daily_revenue_pg'' = Inr ?X"
    and gy: "getitem ?M ''daily_revenue_sf'' = Inr ?Y"
    by (simp_all add: getitem_def cell_of_def revenue_merged_def o_def)
  have start: "revenue_discrepancies self =
      then_do (series_sub ?X ?Y) (\<lambda>difference.
      then_do (series_div difference ?X) (\<lambda>quotient.
      then_do (series_abs quotient) (\<lambda>magnitude.
      then_do (series_mul magnitude 100) (\<lambda>diff_percentage.
      then_do (getitem (setitem ?M ''diff_percentage'' diff_percentage) ''diff_percentage'')
        (\<lambda>percentage.
      then_do (series_gt percentage 1) (\<lambda>keep.
        Inr (select_rows (setitem ?M ''diff_percentage'' diff_percentage) keep)))))))"
    using assms
    by (simp add: revenue_discrepancies_def DataFrame_revenue merge_revenue gx gy)
  show ?thesis
  proof (cases "series_sub ?X ?Y")
    case Inl
    then show ?thesis by (simp add: start tolerance_pipeline_def)
  next
    case (Inr ds)
    note ds = this
    show ?thesis
    proof (cases "series_div ds ?X")
      case Inl
      then show ?thesis by (simp add: start tolerance_pipeline_def ds)
    next
      case (Inr qs)
      note qs = this
      show ?thesis
      proof (cases "series_abs qs")
        case Inl
        then show ?thesis by (simp add: start tolerance_pipeline_def ds qs)
      next
        case (Inr ms)
        note ms = this
        show ?thesis
        proof (cases "series_mul ms 100")
          case Inl
          then show ?thesis by (simp add: start tolerance_pipeline_def ds qs ms)
        next
          case (Inr ps)
          have "length ps = length (map revenue_merged ?J)"
            using series_length(1) [OF ds] series_length(2) [OF qs] series_length(3) [OF ms]
              series_length(4) [OF Inr]
            by simp
          then have "getitem (setitem ?M ''diff_percentage'' ps) ''diff_percentage'' = Inr ps"
            by (rule getitem_setitem_new)
          then show ?thesis
            by (cases "series_gt ps 1") (simp_all add: start tolerance_pipeline_def ds qs ms Inr)
        qed
      qed
    qed
  qed
qed



lemma revenue_error_form:
  assumes "execute_query (postgres self) revenue_pg_query = Inr (map revenue_row A)"
      and "execute_query (snowflake self) revenue_snowflake_query = Inr (map revenue_row B)"
      and "A \<noteq> []" and "B \<noteq> []"
      and "ab \<in> set (joined_days A B)"
      and "diff_percentage (daily_revenue (fst ab)) (daily_revenue (snd ab)) = Inl e"
  shows "\<exists>e'. revenue_discrepancies self = Inl e'"
proof (cases "revenue_discrepancies self")
  case (Inl e')
  then show ?thesis by blast
next
  case (Inr d)
  then obtain ps ks where
    "tolerance_pipeline (map (\<lambda>ab. daily_revenue (fst ab)) (joined_days A B))
       (map (\<lambda>ab. daily_revenue (snd ab)) (joined_days A B)) = Inr (ps, ks)"
    unfolding revenue_discrepancies_pipeline [OF assms(1-4)] then_do_eq_Inr by auto
  from pipeline_Inr_pointwise [OF this] assms(5,6) show ?thesis by auto
qed

lemma set_joined_days:
  "set (joined_days A B) = {(a, b). a \<in> set A \<and> b \<in> set B \<and> same_date a b}"
  by (auto simp: joined_days_def)

section \<open>The inventory check on well-formed result sets\<close>


lemma execute_query_revenue_cursor:
  "execute_query (connected c (revenue_cursor A)) q = Inr (map revenue_row A)"
  by (simp add: execute_query_fixed revenue_cursor_def py_dict_def revenue_row_def o_def)










section \<open>The revenue check on decimal result sets\<close>










section \<open>A baseline of zero\<close>

lemma diff_percentage_dec_zero:
  "b \<noteq> VNull \<Longrightarrow> \<exists>e. diff_percentage (VDec 0) b = Inl e"
  by (cases b) (auto simp: diff_percentage_def dec_div_def)

lemma diff_percentage_int_zero:
  "diff_percentage (VInt 0) (VInt i) = Inr (if i = 0 then VNull else VPosInf)"
  by (simp add: diff_percentage_def)

text \<open>
  Claim C4, as amended. The division by the baseline is not guarded. When a joined day
  has the decimal baseline 0 and a value on the other side, the division raises inside
  the \<open>try\<close> block; the exception does not leave \<open>validate_revenue_data\<close>, which returns
  the \<open>ERROR\<close> dict with the text of the exception. No discrepancy is reported for that
  day.
\<close>

theorem zero_baseline_gives_error:
  assumes "execute_query (postgres self) revenue_pg_query = Inr (map revenue_row A)"
      and "execute_query (snowflake self) revenue_snowflake_query = Inr (map revenue_row B)"
      and "a \<in> set A" and "b \<in> set B" and "same_date a b"
      and "daily_revenue a = VDec 0" and "daily_revenue b \<noteq> VNull"
  shows "\<exists>e. revenue_discrepancies self = Inl e \<and>
              validate_revenue_data self =
                [(''validation_status'', Str ''ERROR''),
                 (''message'', Str (''Error during validation: '' @ str_exn e))]"
proof -
  from assms(3,4) have ne: "A \<noteq> []" "B \<noteq> []" by auto
  from assms(3,4,5) have mem: "(a, b) \<in> set (joined_days A B)"
    by (simp add: set_joined_days)
  from diff_percentage_dec_zero [OF assms(7)] assms(6) obtain e where
    "diff_percentage (daily_revenue (fst (a, b))) (daily_revenue (snd (a, b))) = Inl e"
    by auto
  from revenue_error_form [OF assms(1,2) ne mem this] obtain e' where
    "revenue_discrepancies self = Inl e'" by blast
  then show ?thesis
    by (simp add: validate_revenue_data_def error_result_def)
qed

text \<open>The day 1 with 0 in PostgreSQL and 5 in Snowflake, both decimal.\<close>

theorem zero_baseline_gives_error_witness:
  "execute_query (postgres (validator_of
       (revenue_cursor [\<lparr>date = VTime 1, daily_revenue = VDec 0\<rparr>]) (fixed_cursor [] [])
       (fixed_cursor [] []) (revenue_cursor [\<lparr>date = VTime 1, daily_revenue = VDec 5\<rparr>])))
     revenue_pg_query = Inr (map revenue_row [\<lparr>date = VTime 1, daily_revenue = VDec 0\<rparr>]) \<and>
   same_date \<lparr>date = VTime 1, daily_revenue = VDec 0\<rparr> \<lparr>date = VTime 1, daily_revenue = VDec 5\<rparr> \<and>
   status_of (validate_revenue_data (validator_of
       (revenue_cursor [\<lparr>date = VTime 1, daily_revenue = VDec 0\<rparr>]) (fixed_cursor [] [])
       (fixed_cursor [] []) (revenue_cursor [\<lparr>date = VTime 1, daily_revenue = VDec 5\<rparr>])))
     = Some (Str ''ERROR'')"
proof -
  let ?a = "\<lparr>date = VTime 1, daily_revenue = VDec 0\<rparr>"
  let ?b = "\<lparr>date = VTime 1, daily_revenue = VDec 5\<rparr>"
  let ?v = "validator_of (revenue_cursor [?a]) (fixed_cursor [] []) (fixed_cursor [] []) (revenue_cursor [?b])"
  have h1: "execute_query (postgres ?v) revenue_pg_query = Inr (map revenue_row [?a])"
    and h2: "execute_query (snowflake ?v) revenue_snowflake_query = Inr (map revenue_row [?b])"
    by (simp_all add: validator_of_def execute_query_revenue_cursor)
  have h3: "?a \<in> set [?a]" and h4: "?b \<in> set [?b]" by simp_all
  have h5: "same_date ?a ?b" by (simp add: same_date_def)
  have h6: "daily_revenue ?a = VDec 0" and h7: "daily_revenue ?b \<noteq> VNull" by simp_all
  from zero_baseline_gives_error [OF h1 h2 h3 h4 h5 h6 h7]
  have "status_of (validate_revenue_data ?v) = Some (Str ''ERROR'')"
    by (auto simp: status_of_def)
  with h1 h5 show ?thesis by blast
qed

text \<open>
  Claim C4 as stated fails. With the decimal baseline 0 against 5 the result is the
  \<open>ERROR\<close> dict of \<open>decimal.DivisionByZero\<close>, not a discrepancy. With the integer
  baseline 0 against 0 (columns of integers divide as floats, and 0 / 0 is NaN) the
  day is not flagged and the result is \<open>PASSED\<close>: no discrepancy either.
\<close>

theorem zero_baseline_not_reported_as_discrepancy:
  "validate_revenue_data (validator_of
       (revenue_cursor [\<lparr>date = VTime 1, daily_revenue = VDec 0\<rparr>]) (fixed_cursor [] [])
       (fixed_cursor [] []) (revenue_cursor [\<lparr>date = VTime 1, daily_revenue = VDec 5\<rparr>]))
     = [(''validation_status'', Str ''ERROR''),
        (''message'', Str (''Error during validation: '' @ str_exn DivisionByZero))] \<and>
   validate_revenue_data (validator_of
       (revenue_cursor [\<lparr>date = VTime 1, daily_revenue = VInt 0\<rparr>]) (fixed_cursor [] [])
       (fixed_cursor [] []) (revenue_cursor [\<lparr>date = VTime 1, daily_revenue = VInt 0\<rparr>]))
     = [(''validation_status'', Str ''PASSED''),
        (''message'', Str ''Revenue data matches within 1% tolerance across systems'')]"
proof -
  have run: "execute_query (postgres (validator_of (revenue_cursor A) ora td (revenue_cursor B)))
        revenue_pg_query = Inr (map revenue_row A)"
    "execute_query (snowflake (validator_of (revenue_cursor A) ora td (revenue_cursor B)))
        revenue_snowflake_query = Inr (map revenue_row B)" for A B ora td
    by (simp_all add: validator_of_def execute_query_revenue_cursor)
  have dec: "revenue_discrepancies (validator_of
       (revenue_cursor [\<lparr>date = VTime 1, daily_revenue = VDec 0\<rparr>]) (fixed_cursor [] [])
       (fixed_cursor [] []) (revenue_cursor [\<lparr>date = VTime 1, daily_revenue = VDec 5\<rparr>]))
     = Inl DivisionByZero"
    by (simp add: revenue_discrepancies_pipeline [OF run] joined_days_def same_date_def
        tolerance_pipeline_def series_sub_def series_div_def dec_div_def)
  have int: "revenue_discrepancies (validator_of
       (revenue_cursor [\<lparr>date = VTime 1, daily_revenue = VInt 0\<rparr>]) (fixed_cursor [] [])
       (fixed_cursor [] []) (revenue_cursor [\<lparr>date = VTime 1, daily_revenue = VInt 0\<rparr>]))
     = Inr \<lparr>columns = [''date'', ''daily_revenue_pg'', ''daily_revenue_sf'', ''diff_percentage''],
            records = []\<rparr>"
    by (simp add: revenue_discrepancies_pipeline [OF run] joined_days_def same_date_def
        tolerance_pipeline_def series_sub_def series_div_def series_abs_def series_mul_def
        series_gt_def setitem_def select_rows_def)
  show ?thesis
    by (simp add: validate_revenue_data_def dec int error_result_def len_def)
qed

section \<open>NULL join keys\<close>





end
